theory Spec2Isabelle
  imports Main
begin

section \<open>The local filesystem and the freshness gate\<close>

text \<open>
  The program (\<^verbatim>\<open>src/index.ts\<close>) mirrors course content into a directory tree and
  uses the modification time of each local file as its only ledger. The model keeps
  the part of the filesystem the program reads and writes: for every path that holds
  a file, its bytes and the two timestamps that \<^verbatim>\<open>fs.utimes\<close> sets and
  \<^verbatim>\<open>fs.stat\<close> reads.

  Times are the integer millisecond values that \<^verbatim>\<open>Date.getTime()\<close> returns for a
  valid date (0 is the epoch, \<open>8640000000000000\<close> the largest value a \<^verbatim>\<open>Date\<close>
  holds). The disk stores a timestamp as it is given: the rounding some file
  systems apply below the millisecond is outside the model. Directories are not
  entries of the disk, so \<^verbatim>\<open>fs.mkdirs\<close> and \<^verbatim>\<open>fs.mkdirp\<close> have no effect here.
\<close>

type_synonym path = string
type_synonym millis = int

record entry =
  bytes :: string
  atimeMs :: millis
  mtimeMs :: millis

type_synonym disk = "path \<rightharpoonup> entry"

datatype error =
    ENOENT path             \<comment> \<open>a filesystem call on a path that does not exist\<close>
  | TransferError string    \<comment> \<open>the transport or the write stream failed\<close>
  | TypeError string        \<comment> \<open>a property read on \<^verbatim>\<open>undefined\<close>, iterating \<^verbatim>\<open>undefined\<close>\<close>

text \<open>
  A promise that settles: \<open>Inl e\<close> is a rejection with \<open>e\<close>, \<open>Inr v\<close> a fulfilment
  with \<open>v\<close>. What a rejected action has already written stays written, so an
  action returns the disk it leaves in both cases.
\<close>

type_synonym 'a promise = "error + 'a"
type_synonym action = "disk \<Rightarrow> unit promise \<times> disk"

text \<open>
  The world the program runs in: the disk, the clock that \<^verbatim>\<open>new Date()\<close> reads,
  the lines written by \<^verbatim>\<open>console.info\<close> and \<^verbatim>\<open>console.error\<close>, and two records of
  what happened that are not in the source: a count of the invocations of the
  action \<^verbatim>\<open>f\<close> handed to \<^verbatim>\<open>fIfNeeded\<close> (an action works on the disk alone and
  cannot touch the count), and the URLs that \<^verbatim>\<open>getJson\<close> has requested.
\<close>

record world =
  disk :: disk
  clock :: millis
  console :: "string list"
  produced :: nat
  requests :: "string list"

definition pathExists :: "disk \<Rightarrow> path \<Rightarrow> bool" where
  "pathExists d p = (d p \<noteq> None)"

definition stat_mtime :: "disk \<Rightarrow> path \<Rightarrow> millis option" where
  \<comment> \<open>\<^verbatim>\<open>(await fs.stat(p)).mtime.getTime()\<close>\<close>
  "stat_mtime d p = map_option mtimeMs (d p)"

definition utimes :: "path \<Rightarrow> millis \<Rightarrow> millis \<Rightarrow> action" where
  \<comment> \<open>\<^verbatim>\<open>fs.utimes(p, atime, mtime)\<close>: rejects when there is nothing at \<open>p\<close>\<close>
  "utimes p a m d =
     (case d p of
        None \<Rightarrow> (Inl (ENOENT p), d)
      | Some e \<Rightarrow> (Inr (), d(p \<mapsto> e\<lparr>atimeMs := a, mtimeMs := m\<rparr>)))"

definition writeFile :: "millis \<Rightarrow> path \<Rightarrow> string \<Rightarrow> action" where
  \<comment> \<open>\<^verbatim>\<open>fs.writeFile(p, data)\<close> at clock reading \<open>now\<close>: creates or replaces the
      file; the operating system stamps the modification time with its clock\<close>
  "writeFile now p data d =
     (Inr (),
      d(p \<mapsto> (case d p of
                 None \<Rightarrow> \<lparr>bytes = data, atimeMs = now, mtimeMs = now\<rparr>
               | Some e \<Rightarrow> e\<lparr>bytes := data, mtimeMs := now\<rparr>)))"

definition info :: "string \<Rightarrow> world \<Rightarrow> world" where
  "info line w = w\<lparr>console := console w @ [line]\<rparr>"

definition fresh :: "disk \<Rightarrow> path \<Rightarrow> millis \<Rightarrow> bool" where
  \<comment> \<open>the condition of line 104:
      \<^verbatim>\<open>(await fs.pathExists(destPath)) && mtime.getTime() === (await fs.stat(destPath)).mtime.getTime()\<close>\<close>
  "fresh d destPath mtime =
     (pathExists d destPath \<and> Some mtime = stat_mtime d destPath)"

definition fIfNeeded :: "action \<Rightarrow> path \<Rightarrow> millis \<Rightarrow> world \<Rightarrow> unit promise \<times> world" where
  \<comment> \<open>lines 100 to 111: skip, or run \<open>f\<close>, log the write and stamp the file; a
      rejection of \<open>f\<close> or of \<^verbatim>\<open>fs.utimes\<close> is the rejection of the gate\<close>
  "fIfNeeded f destPath mtime w =
     (if fresh (disk w) destPath mtime
      then (Inr (), info (''[SKIP] '' @ destPath) w)
      else
        (case f (disk w) of
           (Inl e, d1) \<Rightarrow> (Inl e, w\<lparr>disk := d1, produced := Suc (produced w)\<rparr>)
         | (Inr u, d1) \<Rightarrow>
             (let w1 = info (''[WRITE] '' @ destPath)
                         (w\<lparr>disk := d1, produced := Suc (produced w)\<rparr>)
              in case utimes destPath (clock w1) mtime (disk w1) of
                   (r, d2) \<Rightarrow> (r, w1\<lparr>disk := d2\<rparr>))))"



definition world0 :: world where
  "world0 = \<lparr>disk = Map.empty, clock = 1700000000000, console = [], produced = 0, requests = []\<rparr>"



section \<open>Strings, numbers and paths\<close>

text \<open>
  A string is a list of \<open>char\<close>, read as the code units of the JavaScript string
  below 256. \<open>isWhiteSpace\<close> is the class \<^verbatim>\<open>\s\<close> of a regular expression on that
  range: tab, line feed, vertical tab, form feed, carriage return, space and the
  no-break space.
\<close>

definition isWhiteSpace :: "char \<Rightarrow> bool" where
  "isWhiteSpace c = (of_char c \<in> {9, 10, 11, 12, 13, 32, 160 :: nat})"

definition isDigit :: "char \<Rightarrow> bool" where
  "isDigit c = (48 \<le> (of_char c :: nat) \<and> (of_char c :: nat) \<le> 57)"

text \<open>
  \<^verbatim>\<open>santizeFilename\<close> (line 38). The function \<^verbatim>\<open>filenamify\<close> it calls comes from a
  package that is not part of the repository, so it is a parameter here.
\<close>

definition santizeFilename :: "(string \<Rightarrow> string) \<Rightarrow> string \<Rightarrow> string" where
  "santizeFilename filenamify s =
     map (\<lambda>c. if isWhiteSpace c then CHR ''_'' else c) (filenamify s)"

text \<open>
  The decimal form of an integer, as string concatenation and template literals
  produce it for the integral identifiers of the remote records (numbers below
  \<open>10\<^sup>2\<^sup>1\<close> in absolute value print without an exponent).
\<close>

fun digits :: "nat \<Rightarrow> string" where
  "digits n = (if n < 10 then [char_of (48 + n)] else digits (n div 10) @ [char_of (48 + n mod 10)])"

declare digits.simps [simp del]

definition toString :: "int \<Rightarrow> string" where
  "toString i = (if i < 0 then CHR ''-'' # digits (nat (- i)) else digits (nat i))"

text \<open>The number a string of decimal digits stands for.\<close>

definition decode :: "string \<Rightarrow> nat" where
  "decode s = foldl (\<lambda>a c. 10 * a + (of_char c - 48)) 0 s"

fun js_split :: "char \<Rightarrow> string \<Rightarrow> string list" where
  \<comment> \<open>\<^verbatim>\<open>s.split(sep)\<close> for a separator of one character\<close>
  "js_split sep [] = [[]]"
| "js_split sep (c # cs) =
     (if c = sep then [] # js_split sep cs
      else (case js_split sep cs of
              [] \<Rightarrow> [[c]]
            | x # xs \<Rightarrow> (c # x) # xs))"

fun join :: "string \<Rightarrow> string list \<Rightarrow> string" where
  "join sep [] = []"
| "join sep [x] = x"
| "join sep (x # y # ys) = x @ sep @ join sep (y # ys)"

text \<open>
  \<^verbatim>\<open>path.resolve\<close> of Node on POSIX. The arguments are taken from the right until
  one of them is absolute, the working directory (an absolute path) standing to
  the left of the first; empty arguments are skipped. The result is normalised:
  empty segments and \<^verbatim>\<open>.\<close> are dropped and \<^verbatim>\<open>..\<close> removes the segment before it,
  never climbing above the root.
\<close>

fun gather :: "path \<Rightarrow> path list \<Rightarrow> path \<Rightarrow> path" where
  \<comment> \<open>the loop of \<^verbatim>\<open>resolve\<close>, over the arguments in reverse\<close>
  "gather cwd [] resolvedPath = cwd @ ''/'' @ resolvedPath"
| "gather cwd (p # ps) resolvedPath =
     (if p = [] then gather cwd ps resolvedPath
      else if hd p = CHR ''/'' then p @ ''/'' @ resolvedPath
      else gather cwd ps (p @ ''/'' @ resolvedPath))"

fun normalizeString :: "string list \<Rightarrow> string list \<Rightarrow> string list" where
  \<comment> \<open>the segments still to read, and those kept so far, last first\<close>
  "normalizeString [] res = rev res"
| "normalizeString (seg # segs) res =
     (if seg = [] \<or> seg = ''.'' then normalizeString segs res
      else if seg = ''..'' then normalizeString segs (case res of [] \<Rightarrow> [] | _ # r \<Rightarrow> r)
      else normalizeString segs (seg # res))"

definition path_resolve :: "path \<Rightarrow> path list \<Rightarrow> path" where
  "path_resolve cwd args =
     CHR ''/'' # join ''/'' (normalizeString (js_split CHR ''/'' (gather cwd (rev args) [])) [])"

section \<open>Remote records and the deduplication of files\<close>

text \<open>
  The interfaces of lines 44 to 72. The field \<^verbatim>\<open>id\<close> is written \<open>c_id\<close>, \<open>f_id\<close>
  and \<open>a_id\<close> (\<open>id\<close> is the identity function of HOL), and the \<^verbatim>\<open>url\<close> of a page
  \<open>page_url\<close>. A course can come without \<^verbatim>\<open>name\<close> or \<^verbatim>\<open>course_code\<close> (the loop of
  \<^verbatim>\<open>run\<close> tests for it), which is \<open>None\<close>.
\<close>

record Course =
  c_id :: int
  name :: "string option"
  course_code :: "string option"

record File =
  folder_id :: int
  filename :: string
  url :: string
  modified_at :: string

record Folder =
  f_id :: int
  full_name :: string

record Page =
  page_url :: string
  updated_at :: string

record Announcement =
  a_id :: string
  title :: string
  created_at :: string
  message :: string

text \<open>
  \<^verbatim>\<open>Array.prototype.sort\<close> with a comparison function is stable: an element goes
  before the first one it does not compare greater than. \<^verbatim>\<open>lodash.uniqBy\<close> keeps,
  in order, the first element of every computed key.
\<close>

fun insert_by :: "('a \<Rightarrow> 'a \<Rightarrow> int) \<Rightarrow> 'a \<Rightarrow> 'a list \<Rightarrow> 'a list" where
  "insert_by cmp x [] = [x]"
| "insert_by cmp x (y # ys) =
     (if cmp x y \<le> 0 then x # y # ys else y # insert_by cmp x ys)"

definition js_sort :: "('a \<Rightarrow> 'a \<Rightarrow> int) \<Rightarrow> 'a list \<Rightarrow> 'a list" where
  "js_sort cmp xs = foldr (insert_by cmp) xs []"

fun baseUniq :: "('a \<Rightarrow> 'k) \<Rightarrow> 'k list \<Rightarrow> 'a list \<Rightarrow> 'a list" where
  "baseUniq iteratee seen [] = []"
| "baseUniq iteratee seen (x # xs) =
     (let computed = iteratee x
      in if computed \<in> set seen then baseUniq iteratee seen xs
         else x # baseUniq iteratee (computed # seen) xs)"

definition uniqBy :: "'a list \<Rightarrow> ('a \<Rightarrow> 'k) \<Rightarrow> 'a list" where
  "uniqBy xs iteratee = baseUniq iteratee [] xs"

text \<open>
  Lines 136 and 138 of \<^verbatim>\<open>downloadFiles\<close>. \<open>getTime\<close> stands for
  \<^verbatim>\<open>new Date(s).getTime()\<close> on the timestamps of the remote records (ISO 8601
  strings, so the value is a number and not \<^verbatim>\<open>NaN\<close>).
\<close>

definition byModifiedDesc :: "(string \<Rightarrow> millis) \<Rightarrow> File \<Rightarrow> File \<Rightarrow> int" where
  \<comment> \<open>\<^verbatim>\<open>(a, b) => new Date(b.modified_at).getTime() - new Date(a.modified_at).getTime()\<close>\<close>
  "byModifiedDesc getTime a b = getTime (modified_at b) - getTime (modified_at a)"

definition destinationKey :: "File \<Rightarrow> string" where
  \<comment> \<open>\<^verbatim>\<open>f => `${f.folder_id} ${f.filename}`\<close>\<close>
  "destinationKey f = toString (folder_id f) @ '' '' @ filename f"

definition uniqueFiles :: "(string \<Rightarrow> millis) \<Rightarrow> File list \<Rightarrow> File list" where
  "uniqueFiles getTime files = uniqBy (js_sort (byModifiedDesc getTime) files) destinationKey"

text \<open>
  The scenario of the spec: two records of folder 7 named \<^verbatim>\<open>syllabus.pdf\<close>, modified
  on 1 January and on 1 June 2023. \<open>scenarioTime\<close> gives \<^verbatim>\<open>Date.getTime()\<close> for these
  two timestamps.
\<close>

definition scenarioTime :: "string \<Rightarrow> millis" where
  "scenarioTime s =
     (if s = ''2023-06-01T00:00:00Z'' then 1685577600000
      else if s = ''2023-01-01T00:00:00Z'' then 1672531200000
      else 0)"

definition syllabusJan :: File where
  "syllabusJan = \<lparr>folder_id = 7, filename = ''syllabus.pdf'',
     url = ''https://canvas.example/files/1/download'', modified_at = ''2023-01-01T00:00:00Z''\<rparr>"

definition syllabusJun :: File where
  "syllabusJun = \<lparr>folder_id = 7, filename = ''syllabus.pdf'',
     url = ''https://canvas.example/files/2/download'', modified_at = ''2023-06-01T00:00:00Z''\<rparr>"

section \<open>The remote interface\<close>

text \<open>
  What the program needs from outside the repository: the sanitizer of the package
  \<^verbatim>\<open>filenamify\<close>, the working directory, \<^verbatim>\<open>Date\<close> parsing, the replies of the remote
  API to the enumeration requests of a course (by course id), the body of a page,
  and the streamed download of a URL into a path (\<^verbatim>\<open>fs.createWriteStream\<close> fed by
  \<^verbatim>\<open>request.get(url).pipe\<close>), which is an action on the disk.

  A request is answered with a body, fails with an HTTP status, or fails without a
  response.
\<close>

datatype 'a reply = Body 'a | HttpError string | NoResponse

record env =
  filenamify :: "string \<Rightarrow> string"
  cwd :: path
  getTime :: "string \<Rightarrow> millis"
  respondCourses :: "Course list reply"
  respondFolders :: "int \<Rightarrow> Folder list reply"
  respondFiles :: "int \<Rightarrow> File list reply"
  respondPages :: "int \<Rightarrow> Page list reply"
  respondAnnouncements :: "int \<Rightarrow> Announcement list reply"
  respondPage :: "int \<Rightarrow> string \<Rightarrow> string promise"
  transfer :: "string \<Rightarrow> path \<Rightarrow> action"

text \<open>
  The options as \<^verbatim>\<open>program.opts()\<close> returns them (lines 11 to 24). \<^verbatim>\<open>--course\<close> takes
  an optional value: the option is \<^verbatim>\<open>undefined\<close>, \<^verbatim>\<open>true\<close> or a string. \<^verbatim>\<open>--all\<close> is
  \<^verbatim>\<open>undefined\<close> or a boolean. The other three are \<^verbatim>\<open>undefined\<close> or a string. The
  fields are \<^verbatim>\<open>course\<close>, \<^verbatim>\<open>all\<close>, \<^verbatim>\<open>dir\<close>, \<^verbatim>\<open>url\<close> and \<^verbatim>\<open>token\<close> in the source.
\<close>

datatype optval = Unset | Flag | Given string

record options =
  opt_course :: optval
  opt_all :: "bool option"
  opt_dir :: "string option"
  opt_url :: "string option"
  opt_token :: "string option"

definition truthyVal :: "optval \<Rightarrow> bool" where
  "truthyVal v = (case v of Unset \<Rightarrow> False | Flag \<Rightarrow> True | Given s \<Rightarrow> s \<noteq> [])"

definition truthyStr :: "string option \<Rightarrow> bool" where
  "truthyStr v = (case v of None \<Rightarrow> False | Some s \<Rightarrow> s \<noteq> [])"

definition template :: "string option \<Rightarrow> string" where
  \<comment> \<open>a value inside a template literal\<close>
  "template v = (case v of None \<Rightarrow> ''undefined'' | Some s \<Rightarrow> s)"

definition describe :: "error \<Rightarrow> string" where
  \<comment> \<open>what \<^verbatim>\<open>console.error\<close> prints for an error\<close>
  "describe e =
     (case e of
        ENOENT p \<Rightarrow> ''Error: ENOENT: no such file or directory, '' @ p
      | TransferError msg \<Rightarrow> ''Error: '' @ msg
      | TypeError msg \<Rightarrow> ''TypeError: '' @ msg)"

definition getJson :: "string \<Rightarrow> string \<Rightarrow> 'a reply \<Rightarrow> world \<Rightarrow> 'a option promise \<times> world" where
  \<comment> \<open>lines 113 to 124; \<open>query\<close> is \<^verbatim>\<open>JSON.stringify(query)\<close>. The handler of a failed
      request reads \<^verbatim>\<open>e.response.header.status\<close>, which throws when there is no
      response. A request that failed with a status returns \<^verbatim>\<open>undefined\<close>.\<close>
  "getJson u query reply w =
     (let w1 = w\<lparr>requests := requests w @ [u]\<rparr>
      in case reply of
           Body b \<Rightarrow> (Inr (Some b), w1)
         | HttpError status \<Rightarrow> (Inr None, info (''['' @ status @ ''] '' @ u @ '' query:'' @ query) w1)
         | NoResponse \<Rightarrow> (Inl (TypeError ''Cannot read properties of undefined (reading header)''), w1))"

definition perPage :: string where
  \<comment> \<open>the query \<^verbatim>\<open>{per_page: PAGE_SIZE}\<close> as the log line shows it, quotes left out\<close>
  "perPage = ''{per_page:999999}''"

section \<open>The category downloaders\<close>

definition fileDestPath :: "env \<Rightarrow> path \<Rightarrow> string \<Rightarrow> string \<Rightarrow> path" where
  \<comment> \<open>lines 142 to 145\<close>
  "fileDestPath E courseDir canvasFoldername fname =
     (let santizedCanvasFoldername =
            path_resolve (cwd E)
              (courseDir # map (santizeFilename (filenamify E)) (js_split CHR ''/'' canvasFoldername));
          folder = path_resolve (cwd E) [courseDir, santizedCanvasFoldername]
      in path_resolve (cwd E) [folder, fname])"

fun filesLoop :: "env \<Rightarrow> path \<Rightarrow> Folder list \<Rightarrow> File list \<Rightarrow> world \<Rightarrow> unit promise \<times> world" where
  \<comment> \<open>the loop of lines 140 to 159: a rejection leaves the loop and the function\<close>
  "filesLoop E courseDir folders [] w = (Inr (), w)"
| "filesLoop E courseDir folders (file # rest) w =
     (case find (\<lambda>f. f_id f = folder_id file) folders of
        None \<Rightarrow> (Inl (TypeError ''Cannot read properties of undefined (reading full_name)''), w)
      | Some fo \<Rightarrow>
          (let destPath = fileDestPath E courseDir (full_name fo) (filename file)
           in case fIfNeeded (transfer E (url file) destPath) destPath
                     (getTime E (modified_at file)) w of
                (Inl e, w1) \<Rightarrow> (Inl e, w1)
              | (Inr u, w1) \<Rightarrow> filesLoop E courseDir folders rest w1))"

definition downloadFiles :: "env \<Rightarrow> options \<Rightarrow> Course \<Rightarrow> path \<Rightarrow> world \<Rightarrow> unit promise \<times> world" where
  "downloadFiles E opts c courseDir w =
     (case getJson (template (opt_url opts) @ ''/courses/'' @ toString (c_id c) @ ''/folders'')
             perPage (respondFolders E (c_id c)) w of
        (Inl e, w1) \<Rightarrow> (Inl e, w1)
      | (Inr None, w1) \<Rightarrow> (Inr (), w1)
      | (Inr (Some folders), w1) \<Rightarrow>
          (case getJson (template (opt_url opts) @ ''/courses/'' @ toString (c_id c) @ ''/files'')
                  perPage (respondFiles E (c_id c)) w1 of
             (Inl e, w2) \<Rightarrow> (Inl e, w2)
           | (Inr None, w2) \<Rightarrow> (Inr (), w2)
           | (Inr (Some files), w2) \<Rightarrow>
               filesLoop E courseDir folders (uniqueFiles (getTime E) files) w2))"

definition pageProduce :: "env \<Rightarrow> int \<Rightarrow> Page \<Rightarrow> millis \<Rightarrow> path \<Rightarrow> action" where
  \<comment> \<open>the action of lines 247 to 250: the request rejects, or its body is written\<close>
  "pageProduce E cid page now destPath d =
     (case respondPage E cid (page_url page) of
        Inl e \<Rightarrow> (Inl e, d)
      | Inr body \<Rightarrow> writeFile now destPath body d)"

fun pagesLoop :: "env \<Rightarrow> int \<Rightarrow> path \<Rightarrow> Page list \<Rightarrow> world \<Rightarrow> unit promise \<times> world" where
  "pagesLoop E cid pagesDir [] w = (Inr (), w)"
| "pagesLoop E cid pagesDir (page # rest) w =
     (let destPath = path_resolve (cwd E)
                       [pagesDir, santizeFilename (filenamify E) (page_url page) @ ''.html'']
      in case fIfNeeded (pageProduce E cid page (clock w) destPath) destPath
                (getTime E (updated_at page)) w of
           (Inl e, w1) \<Rightarrow> (Inl e, w1)
         | (Inr u, w1) \<Rightarrow> pagesLoop E cid pagesDir rest w1)"

definition downloadPages :: "env \<Rightarrow> options \<Rightarrow> Course \<Rightarrow> path \<Rightarrow> world \<Rightarrow> unit promise \<times> world" where
  "downloadPages E opts c courseDir w =
     (case getJson (template (opt_url opts) @ ''/courses/'' @ toString (c_id c) @ ''/pages'')
             perPage (respondPages E (c_id c)) w of
        (Inl e, w1) \<Rightarrow> (Inl e, w1)
      | (Inr None, w1) \<Rightarrow> (Inr (), w1)
      | (Inr (Some pages), w1) \<Rightarrow>
          pagesLoop E (c_id c) (path_resolve (cwd E) [courseDir, ''pages'']) pages w1)"

definition announcementFilename :: "(string \<Rightarrow> string) \<Rightarrow> Announcement \<Rightarrow> string" where
  \<comment> \<open>\<^verbatim>\<open>santizeFilename(a.title + '_' + a.id) + '.html'\<close>, line 263\<close>
  "announcementFilename fy a = santizeFilename fy (title a @ ''_'' @ a_id a) @ ''.html''"

fun announcementsLoop :: "env \<Rightarrow> path \<Rightarrow> Announcement list \<Rightarrow> world \<Rightarrow> unit promise \<times> world" where
  "announcementsLoop E announcementsDir [] w = (Inr (), w)"
| "announcementsLoop E announcementsDir (a # rest) w =
     (let canvasMtime = getTime E (created_at a);
          destPath = path_resolve (cwd E) [announcementsDir, announcementFilename (filenamify E) a]
      in case fIfNeeded (writeFile (clock w) destPath (message a)) destPath canvasMtime w of
           (Inl e, w1) \<Rightarrow> (Inl e, w1)
         | (Inr u, w1) \<Rightarrow> announcementsLoop E announcementsDir rest w1)"

definition downloadAnnouncements :: "env \<Rightarrow> options \<Rightarrow> Course \<Rightarrow> path \<Rightarrow> world \<Rightarrow> unit promise \<times> world" where
  "downloadAnnouncements E opts c courseDir w =
     (case getJson (template (opt_url opts) @ ''/announcements'')
             (''{per_page:999999,context_codes[]:course_'' @ toString (c_id c) @ ''}'')
             (respondAnnouncements E (c_id c)) w of
        (Inl e, w1) \<Rightarrow> (Inl e, w1)
      | (Inr None, w1) \<Rightarrow> (Inr (), w1)
      | (Inr (Some announcements), w1) \<Rightarrow>
          announcementsLoop E (path_resolve (cwd E) [courseDir, ''announcements'']) announcements w1)"

section \<open>The orchestrator\<close>

text \<open>
  \<^verbatim>\<open>run\<close> (lines 268 to 301) calls the five category downloaders of every course it
  processes, each followed by \<^verbatim>\<open>.catch(console.error)\<close>. The model takes the five as
  a parameter: \<^verbatim>\<open>downloadFiles\<close>, \<^verbatim>\<open>downloadPages\<close> and \<^verbatim>\<open>downloadAnnouncements\<close> are
  the functions above; \<^verbatim>\<open>downloadModules\<close> and \<^verbatim>\<open>downloadAssignments\<close> are left open
  (the second dispatches its transfers without awaiting them, which a sequential
  model does not express). Next to the world, \<open>run\<close> returns the list of the
  downloaders it has invoked, each with its course, in order; a downloader sees
  the world only.
\<close>

datatype category = Assignments | Files | Pages | Announcements | Modules

type_synonym downloader = "Course \<Rightarrow> path \<Rightarrow> world \<Rightarrow> unit promise \<times> world"

record categories =
  dlAssignments :: downloader
  dlFiles :: downloader
  dlPages :: downloader
  dlAnnouncements :: downloader
  dlModules :: downloader

type_synonym trace = "(category \<times> Course) list"

definition caught :: "(world \<Rightarrow> unit promise \<times> world) \<Rightarrow> world \<Rightarrow> world" where
  \<comment> \<open>\<^verbatim>\<open>await p.catch(console.error)\<close>\<close>
  "caught p w = (case p w of (Inl e, w1) \<Rightarrow> info (describe e) w1 | (Inr u, w1) \<Rightarrow> w1)"

definition invoke :: "category \<Rightarrow> downloader \<Rightarrow> Course \<Rightarrow> path \<Rightarrow> trace \<times> world \<Rightarrow> trace \<times> world" where
  "invoke cat d c courseDir s = (fst s @ [(cat, c)], caught (d c courseDir) (snd s))"

definition allCategories :: "Course \<Rightarrow> trace" where
  "allCategories c = [(Assignments, c), (Files, c), (Pages, c), (Announcements, c), (Modules, c)]"

definition courseBody :: "categories \<Rightarrow> env \<Rightarrow> string \<Rightarrow> Course \<Rightarrow> string \<Rightarrow> trace \<times> world \<Rightarrow> trace \<times> world" where
  \<comment> \<open>lines 290 to 299, for a course named \<open>n\<close>\<close>
  "courseBody D E targetFolder c n s =
     (let w1 = info (CHR 0x0A # ''> Downloading from '' @ template (course_code c) @ '' '' @ n) (snd s);
          courseDir = path_resolve (cwd E)
                        [targetFolder, santizeFilename (filenamify E) n @ ''_'' @ toString (c_id c)]
      in invoke Modules (dlModules D) c courseDir
           (invoke Announcements (dlAnnouncements D) c courseDir
              (invoke Pages (dlPages D) c courseDir
                 (invoke Files (dlFiles D) c courseDir
                    (invoke Assignments (dlAssignments D) c courseDir (fst s, w1))))))"

fun courseLoop :: "categories \<Rightarrow> env \<Rightarrow> string \<Rightarrow> Course list \<Rightarrow> trace \<times> world \<Rightarrow> trace \<times> world" where
  \<comment> \<open>the loop of lines 283 to 300; of the JSON text of a skipped course the log
      line keeps the id\<close>
  "courseLoop D E targetFolder [] s = s"
| "courseLoop D E targetFolder (c # cs) s =
     (if \<not> truthyStr (name c)
      then courseLoop D E targetFolder cs
             (fst s, info (''No course name, skipping. Data: '' @ toString (c_id c)) (snd s))
      else courseLoop D E targetFolder cs (courseBody D E targetFolder c (template (name c)) s))"

definition strictEq :: "string option \<Rightarrow> optval \<Rightarrow> bool" where
  \<comment> \<open>\<^verbatim>\<open>a.name === courseName\<close>: a string or \<^verbatim>\<open>undefined\<close> against the option's value\<close>
  "strictEq v courseName =
     (case courseName of
        Unset \<Rightarrow> v = None
      | Flag \<Rightarrow> False
      | Given t \<Rightarrow> v = Some t)"

definition coursesToProcess :: "optval \<Rightarrow> Course list \<Rightarrow> Course list" where
  \<comment> \<open>line 275\<close>
  "coursesToProcess courseName courses =
     (if truthyVal courseName
      then filter (\<lambda>a. strictEq (name a) courseName \<or> strictEq (course_code a) courseName) courses
      else courses)"

definition run :: "categories \<Rightarrow> env \<Rightarrow> options \<Rightarrow> world \<Rightarrow> unit promise \<times> trace \<times> world" where
  "run D E opts w =
     (case getJson (template (opt_url opts) @ ''/courses'') perPage (respondCourses E) w of
        (Inl e, w1) \<Rightarrow> (Inl e, [], w1)
      | (Inr None, w1) \<Rightarrow> (Inr (), [], w1)
      | (Inr (Some courses), w1) \<Rightarrow>
          (case courseLoop D E (template (opt_dir opts))
                  (coursesToProcess (opt_course opts) courses) ([], w1) of
             (tr, w2) \<Rightarrow> (Inr (), tr, w2)))"

section \<open>Start of the program\<close>

text \<open>
  Lines 19 to 36 and 303 to 306. \<^verbatim>\<open>commanderFail\<close> prints its message with
  \<^verbatim>\<open>console.error\<close> and calls \<^verbatim>\<open>program.help()\<close> of the package commander, which
  prints the usage and ends the process. The package is not part of the
  repository; as it documents \<^verbatim>\<open>help()\<close>, the process ends with the status
  \<^verbatim>\<open>process.exitCode || 0\<close> unless \<^verbatim>\<open>help\<close> is given \<^verbatim>\<open>{ error: true }\<close>. The program
  never assigns \<^verbatim>\<open>process.exitCode\<close> and gives \<^verbatim>\<open>help\<close> no argument, so the status
  is 0. The first check that fails ends the process, so the later ones do not
  run.
\<close>

definition helpExitStatus :: nat where
  "helpExitStatus = 0"

definition usage :: string where
  "usage = ''Usage: index [options]''"

definition commanderFail :: "string \<Rightarrow> world \<Rightarrow> nat \<times> world" where
  "commanderFail msg w = (helpExitStatus, info usage (if msg \<noteq> [] then info msg w else w))"

definition checkOptions :: "options \<Rightarrow> string option" where
  \<comment> \<open>the message of the first check of lines 26 to 36 that fails\<close>
  "checkOptions opts =
     (if truthyVal (opt_course opts) \<and> opt_all opts = Some True
        then Some ''Specify either --course or --all, not both''
      else if \<not> truthyVal (opt_course opts) \<and> opt_all opts \<noteq> Some True
        then Some ''Must specify either --course or --all''
      else if \<not> truthyStr (opt_dir opts) then Some ''Must specify dir''
      else if \<not> truthyStr (opt_url opts) then Some ''Must specify url''
      else if \<not> truthyStr (opt_token opts) then Some ''Must specify token''
      else None)"

definition main :: "categories \<Rightarrow> env \<Rightarrow> options \<Rightarrow> world \<Rightarrow> nat \<times> world" where
  \<comment> \<open>the exit status of the process and the world it leaves\<close>
  "main D E opts w =
     (case checkOptions opts of
        Some msg \<Rightarrow> commanderFail msg w
      | None \<Rightarrow>
          (case run D E opts w of
             (Inl e, tr, w1) \<Rightarrow> (1, info (describe e) w1)
           | (Inr u, tr, w1) \<Rightarrow> (0, w1)))"

section \<open>A concrete course\<close>

text \<open>
  The inputs at which the program is evaluated below: the course of the spec's
  scenario, mirrored into \<^verbatim>\<open>/out\<close>.
\<close>

definition filenamifySpec :: "string \<Rightarrow> string" where
  \<comment> \<open>Modelled from the spec: the package \<^verbatim>\<open>filenamify\<close> is not part of the repository.
      Of the sanitizer the spec says that disallowed filesystem characters are
      stripped or escaped and that \<^verbatim>\<open>:\<close>, \<^verbatim>\<open>*\<close> and \<^verbatim>\<open>?\<close> are among them; here each of
      \<^verbatim>\<open><>:"/\|?*\<close> and each control character becomes \<^verbatim>\<open>!\<close>. It only serves to
      evaluate the program at concrete inputs.\<close>
  "filenamifySpec s =
     map (\<lambda>c. if c \<in> {CHR ''<'', CHR ''>'', CHR '':'', CHR 0x22, CHR ''/'', CHR 0x5C,
                       CHR ''|'', CHR ''?'', CHR ''*''} \<or> (of_char c :: nat) < 32
              then CHR ''!'' else c) s"

definition courseX :: Course where
  "courseX = \<lparr>c_id = 42, name = Some ''CourseX'', course_code = Some ''CX101''\<rparr>"

definition restricted :: Course where
  \<comment> \<open>a course the API lists without a name\<close>
  "restricted = \<lparr>c_id = 43, name = None, course_code = Some ''CX101''\<rparr>"

definition courseY :: Course where
  "courseY = \<lparr>c_id = 44, name = Some ''CX101 (old)'', course_code = Some ''CX1010''\<rparr>"

definition scenarioOptions :: options where
  "scenarioOptions =
     \<lparr>opt_course = Given ''CX101'', opt_all = None, opt_dir = Some ''/out'',
      opt_url = Some ''https://canvas.example/api/v1'', opt_token = Some ''secret''\<rparr>"

definition readings :: Folder where
  "readings = \<lparr>f_id = 7, full_name = ''Unit 1/Readings''\<rparr>"

definition scenarioEnv :: env where
  \<comment> \<open>every download writes the URL it was asked for as the content\<close>
  "scenarioEnv =
     \<lparr>filenamify = filenamifySpec,
      cwd = ''/home/user'',
      getTime = scenarioTime,
      respondCourses = Body [courseX, restricted, courseY],
      respondFolders = (\<lambda>cid. Body [readings]),
      respondFiles = (\<lambda>cid. Body [syllabusJan, syllabusJun]),
      respondPages = (\<lambda>cid. Body []),
      respondAnnouncements = (\<lambda>cid. Body []),
      respondPage = (\<lambda>cid u. Inr ''<p></p>''),
      transfer = (\<lambda>u p. writeFile 1700000000000 p u)\<rparr>"




definition scenarioCategories :: "env \<Rightarrow> options \<Rightarrow> categories" where
  \<comment> \<open>the three downloaders of the model, an assignments downloader that rejects
      and a modules downloader that does nothing\<close>
  "scenarioCategories E opts =
     \<lparr>dlAssignments = (\<lambda>c courseDir w. (Inl (TypeError ''assignments is not iterable''), w)),
      dlFiles = downloadFiles E opts,
      dlPages = downloadPages E opts,
      dlAnnouncements = downloadAnnouncements E opts,
      dlModules = (\<lambda>c courseDir w. (Inr (), w))\<rparr>"






definition noSelection :: options where
  \<comment> \<open>neither \<^verbatim>\<open>--course\<close> nor \<^verbatim>\<open>--all\<close>; directory, URL and token are given\<close>
  "noSelection = scenarioOptions\<lparr>opt_course := Unset\<rparr>"

section \<open>Properties of the freshness gate\<close>











section \<open>Properties of the deduplication\<close>

lemma set_insert_by [simp]: "set (insert_by cmp x ys) = insert x (set ys)"
  by (induction ys) auto

lemma set_js_sort [simp]: "set (js_sort cmp xs) = set xs"
  by (induction xs) (auto simp: js_sort_def)

lemma sorted_insert_by:
  "sorted_wrt (\<lambda>a b. t b \<le> (t a :: int)) ys \<Longrightarrow>
   sorted_wrt (\<lambda>a b. t b \<le> t a) (insert_by (\<lambda>a b. t b - t a) x ys)"
  by (induction ys) auto

lemma sorted_js_sort:
  "sorted_wrt (\<lambda>a b. t b \<le> (t a :: int)) (js_sort (\<lambda>a b. t b - t a) xs)"
proof (induction xs)
  case Nil
  show ?case by (simp add: js_sort_def)
next
  case (Cons x xs)
  then show ?case using sorted_insert_by [of t "js_sort (\<lambda>a b. t b - t a) xs" x]
    by (simp add: js_sort_def)
qed

lemma filter_baseUniq:
  "filter (\<lambda>f. key f = k) (baseUniq key seen xs) =
     (if k \<in> set seen then []
      else case find (\<lambda>f. key f = k) xs of None \<Rightarrow> [] | Some x \<Rightarrow> [x])"
  by (induction xs arbitrary: seen) (auto simp: Let_def split: option.splits)

lemma find_first_max:
  "sorted_wrt (\<lambda>a b. t b \<le> (t a :: int)) ys \<Longrightarrow> find P ys = Some x \<Longrightarrow>
   P x \<and> x \<in> set ys \<and> (\<forall>y\<in>set ys. P y \<longrightarrow> t y \<le> t x)"
  by (induction ys) (auto split: if_splits)

lemma digits_isDigit: "c \<in> set (digits n) \<Longrightarrow> isDigit c"
proof (induction n arbitrary: c rule: digits.induct)
  case (1 n)
  show ?case
  proof (cases "n < 10")
    case True
    with "1.prems" show ?thesis
      by (simp add: digits.simps [of n] isDigit_def)
  next
    case False
    have "n mod 10 < 10" by simp
    then have "isDigit (char_of (48 + n mod 10))"
      by (simp add: isDigit_def) 
    with False "1.prems" "1.IH" show ?thesis
      by (auto simp add: digits.simps [of n])
  qed
qed

lemma decode_digits: "decode (digits n) = n"
proof (induction n rule: digits.induct)
  case (1 n)
  show ?case
  proof (cases "n < 10")
    case True
    then show ?thesis by (simp add: digits.simps [of n] decode_def)
  next
    case False
    have "n mod 10 < 10" by simp
    then have "(48 + n mod 10) mod 256 = 48 + n mod 10" by simp
    with False "1.IH" show ?thesis
      by (simp add: digits.simps [of n] decode_def)
  qed
qed

lemma digits_inj: "digits m = digits n \<Longrightarrow> m = n"
  by (metis decode_digits)

lemma digits_nonempty: "digits n \<noteq> []"
  by (subst digits.simps) simp

lemma hd_digits_not_dash: "hd (digits n) \<noteq> CHR ''-''"
proof -
  have "hd (digits n) \<in> set (digits n)" using digits_nonempty by simp
  then have "isDigit (hd (digits n))" by (rule digits_isDigit)
  then show ?thesis by (auto simp: isDigit_def)
qed

lemma toString_inj: "toString a = toString b \<Longrightarrow> a = b"
proof -
  assume eq: "toString a = toString b"
  consider "a < 0" "b < 0" | "a < 0" "\<not> b < 0" | "\<not> a < 0" "b < 0" | "\<not> a < 0" "\<not> b < 0"
    by blast
  then show "a = b"
  proof cases
    case 1
    with eq have "digits (nat (- a)) = digits (nat (- b))" by (simp add: toString_def)
    then have "nat (- a) = nat (- b)" by (rule digits_inj)
    with 1 show ?thesis by linarith
  next
    case 2
    with eq have "digits (nat b) = CHR ''-'' # digits (nat (- a))" by (simp add: toString_def)
    then have "hd (digits (nat b)) = CHR ''-''" by simp
    with hd_digits_not_dash show ?thesis by blast
  next
    case 3
    with eq have "digits (nat a) = CHR ''-'' # digits (nat (- b))" by (simp add: toString_def)
    then have "hd (digits (nat a)) = CHR ''-''" by simp
    with hd_digits_not_dash show ?thesis by blast
  next
    case 4
    with eq have "digits (nat a) = digits (nat b)" by (simp add: toString_def)
    then have "nat a = nat b" by (rule digits_inj)
    with 4 show ?thesis by linarith
  qed
qed

lemma toString_no_space: "CHR '' '' \<notin> set (toString a)"
proof
  assume "CHR '' '' \<in> set (toString a)"
  then have "CHR '' '' \<in> set (digits (nat (- a))) \<or> CHR '' '' \<in> set (digits (nat a))"
    by (auto simp: toString_def split: if_splits)
  then have "isDigit CHR '' ''" using digits_isDigit by blast
  then show False by (simp add: isDigit_def)
qed

lemma takeWhile_upto_sep:
  "c \<notin> set u \<Longrightarrow> takeWhile (\<lambda>a. a \<noteq> c) (u @ c # x) = u"
  by (induction u) auto

lemma append_sep_eq:
  assumes "c \<notin> set u" and "c \<notin> set v" and eq: "u @ c # x = v @ c # y"
  shows "u = v \<and> x = y"
proof -
  have "takeWhile (\<lambda>a. a \<noteq> c) (u @ c # x) = u"
    using assms(1) by (rule takeWhile_upto_sep)
  moreover have "takeWhile (\<lambda>a. a \<noteq> c) (v @ c # y) = v"
    using assms(2) by (rule takeWhile_upto_sep)
  ultimately have "u = v" using eq by simp
  with eq show ?thesis by simp
qed

lemma destinationKey_eq_iff:
  "destinationKey f = destinationKey g \<longleftrightarrow> folder_id f = folder_id g \<and> filename f = filename g"
proof
  assume "destinationKey f = destinationKey g"
  then have "toString (folder_id f) @ CHR '' '' # filename f = toString (folder_id g) @ CHR '' '' # filename g"
    by (simp add: destinationKey_def)
  then have "toString (folder_id f) = toString (folder_id g) \<and> filename f = filename g"
    by (rule append_sep_eq [OF toString_no_space toString_no_space])
  then show "folder_id f = folder_id g \<and> filename f = filename g"
    using toString_inj by blast
next
  assume "folder_id f = folder_id g \<and> filename f = filename g"
  then show "destinationKey f = destinationKey g" by (simp add: destinationKey_def)
qed

text \<open>
  C3: for every list of file records and every destination key (folder id,
  filename) that occurs in it, the output of the deduplication (stable sort by
  modification time, latest first, then the first record of every key) holds
  exactly one record of that key; it is one of the input records, and its
  modification time is the maximum over the input records of that key. (The
  timestamps of these records need not even be distinct.)
\<close>

theorem dedup_keeps_latest:
  assumes "g \<in> set files"
  shows "\<exists>r. filter (\<lambda>f. folder_id f = folder_id g \<and> filename f = filename g) (uniqueFiles timeOf files) = [r]
            \<and> r \<in> set files \<and> folder_id r = folder_id g \<and> filename r = filename g
            \<and> timeOf (modified_at r)
                = Max ((\<lambda>f. timeOf (modified_at f)) ` {f \<in> set files. folder_id f = folder_id g \<and> filename f = filename g})"
proof -
  let ?t = "\<lambda>f. timeOf (modified_at f)"
  let ?P = "\<lambda>f. destinationKey f = destinationKey g"
  let ?ys = "js_sort (byModifiedDesc timeOf) files"
  let ?G = "{f \<in> set files. folder_id f = folder_id g \<and> filename f = filename g}"
  have cmp: "byModifiedDesc timeOf = (\<lambda>a b. ?t b - ?t a)"
    by (intro ext) (simp add: byModifiedDesc_def)
  have srt: "sorted_wrt (\<lambda>a b. ?t b \<le> ?t a) ?ys"
    unfolding cmp by (rule sorted_js_sort)
  have "g \<in> set ?ys" using assms by simp
  then have "find ?P ?ys \<noteq> None" by (auto simp: find_None_iff)
  then obtain r where r: "find ?P ?ys = Some r" by blast
  from find_first_max [OF srt r]
  have Pr: "?P r" and rin: "r \<in> set files" and mx: "\<forall>y\<in>set files. ?P y \<longrightarrow> ?t y \<le> ?t r"
    by simp_all
  have same: "(\<lambda>f. folder_id f = folder_id g \<and> filename f = filename g) = ?P"
    by (intro ext) (simp add: destinationKey_eq_iff)
  have flt: "filter ?P (uniqueFiles timeOf files) = [r]"
    using r by (simp add: uniqueFiles_def uniqBy_def filter_baseUniq)
  have key: "folder_id r = folder_id g \<and> filename r = filename g"
    using Pr by (simp add: destinationKey_eq_iff)
  have "Max (?t ` ?G) = ?t r"
  proof (rule Max_eqI)
    show "finite (?t ` ?G)" by simp
    show "?t r \<in> ?t ` ?G" using rin key by blast
    fix y assume "y \<in> ?t ` ?G"
    then show "y \<le> ?t r" using mx by (auto simp: destinationKey_eq_iff)
  qed
  with flt rin key show ?thesis unfolding same by auto
qed


theorem dedup_keeps_latest_witness:
  "syllabusJan \<in> set [syllabusJan, syllabusJun]
   \<and> (\<exists>r. filter (\<lambda>f. folder_id f = 7 \<and> filename f = ''syllabus.pdf'')
               (uniqueFiles scenarioTime [syllabusJan, syllabusJun]) = [r]
          \<and> scenarioTime (modified_at r) = 1685577600000)"
proof -
  have mem: "syllabusJan \<in> set [syllabusJan, syllabusJun]" by simp
  have grp: "{f \<in> set [syllabusJan, syllabusJun].
               folder_id f = folder_id syllabusJan \<and> filename f = filename syllabusJan}
             = {syllabusJan, syllabusJun}"
    by (auto simp: syllabusJan_def syllabusJun_def)
  have mx: "Max ((\<lambda>f. scenarioTime (modified_at f)) ` {syllabusJan, syllabusJun}) = 1685577600000"
    by (simp add: scenarioTime_def syllabusJan_def syllabusJun_def)
  from dedup_keeps_latest [OF mem, of scenarioTime] 
  obtain r where "filter (\<lambda>f. folder_id f = folder_id syllabusJan \<and> filename f = filename syllabusJan)
               (uniqueFiles scenarioTime [syllabusJan, syllabusJun]) = [r]"
     and "scenarioTime (modified_at r) = 1685577600000"
    unfolding grp mx by blast
  then show ?thesis using mem by (simp add: syllabusJan_def)
qed

section \<open>Properties of the files downloader\<close>






section \<open>Properties of the orchestrator\<close>

lemma fst_invoke: "fst (invoke cat d c courseDir s) = fst s @ [(cat, c)]"
  by (simp add: invoke_def)

lemma courseBody_trace: "fst (courseBody D E t c n s) = fst s @ allCategories c"
  by (simp add: courseBody_def allCategories_def fst_invoke Let_def)

lemma courseLoop_trace:
  "fst (courseLoop D E t cs s)
     = fst s @ concat (map allCategories (filter (\<lambda>c. truthyStr (name c)) cs))"
  by (induction cs arbitrary: s) (simp_all add: courseBody_trace)

lemma run_trace:
  assumes "respondCourses E = Body courses"
  shows "fst (run D E opts w) = Inr ()"
    and "fst (snd (run D E opts w))
           = concat (map allCategories
               (filter (\<lambda>c. truthyStr (name c)) (coursesToProcess (opt_course opts) courses)))"
  using assms courseLoop_trace [of D E "template (opt_dir opts)" "coursesToProcess (opt_course opts) courses"]
  by (auto simp: run_def getJson_def Let_def split: prod.splits)




lemma set_allCategories: "snd ` set (allCategories c) = {c}"
  by (auto simp: allCategories_def)

lemma snd_set_concat_all:
  "snd ` set (concat (map allCategories cs)) = set cs"
proof (induction cs)
  case Nil
  show ?case by simp
next
  case (Cons c cs)
  then show ?case using set_allCategories [of c] by (simp add: image_Un)
qed

text \<open>
  C10: when \<^verbatim>\<open>--course\<close> carries a selector, a course is processed (its downloaders
  are invoked) if and only if it is in the list received, its name or its course
  code equals the selector, and it has a name: equality of strings, so no prefix
  and no other case matches, and a course without a name is skipped even when its
  code is the selector.
\<close>

theorem exact_course_selection:
  assumes "opt_course opts = Given sel" and "sel \<noteq> []" and "respondCourses E = Body courses"
  shows "c \<in> snd ` set (fst (snd (run D E opts w)))
         \<longleftrightarrow> c \<in> set courses \<and> (name c = Some sel \<or> course_code c = Some sel) \<and> truthyStr (name c)"
proof -
  have "fst (snd (run D E opts w))
          = concat (map allCategories
              (filter (\<lambda>c. truthyStr (name c)) (coursesToProcess (opt_course opts) courses)))"
    using assms(3) by (rule run_trace(2))
  then have "snd ` set (fst (snd (run D E opts w)))
          = set (filter (\<lambda>c. truthyStr (name c)) (coursesToProcess (opt_course opts) courses))"
    by (simp only: snd_set_concat_all)
  also have "\<dots> = {c \<in> set courses. (name c = Some sel \<or> course_code c = Some sel) \<and> truthyStr (name c)}"
    using assms(1,2) by (auto simp: coursesToProcess_def truthyVal_def strictEq_def)
  finally show ?thesis by simp
qed


theorem exact_course_selection_witness:
  "opt_course scenarioOptions = Given ''CX101'' \<and> ''CX101'' \<noteq> []
   \<and> respondCourses scenarioEnv = Body [courseX, restricted, courseY]
   \<and> courseX \<in> snd ` set (fst (snd (run (scenarioCategories scenarioEnv scenarioOptions)
                                          scenarioEnv scenarioOptions world0)))
   \<and> restricted \<notin> snd ` set (fst (snd (run (scenarioCategories scenarioEnv scenarioOptions)
                                          scenarioEnv scenarioOptions world0)))
   \<and> courseY \<notin> snd ` set (fst (snd (run (scenarioCategories scenarioEnv scenarioOptions)
                                          scenarioEnv scenarioOptions world0)))"
proof -
  let ?tr = "fst (snd (run (scenarioCategories scenarioEnv scenarioOptions) scenarioEnv scenarioOptions world0))"
  have oc: "opt_course scenarioOptions = Given ''CX101''" by (simp add: scenarioOptions_def)
  have ne: "''CX101'' \<noteq> []" by simp
  have rc: "respondCourses scenarioEnv = Body [courseX, restricted, courseY]"
    by (simp add: scenarioEnv_def)
  note sel = exact_course_selection [OF oc ne rc, of _ "scenarioCategories scenarioEnv scenarioOptions" world0]
  have "courseX \<in> snd ` set ?tr"
    unfolding sel by (simp add: courseX_def truthyStr_def)
  moreover have "restricted \<notin> snd ` set ?tr"
    unfolding sel by (simp add: restricted_def truthyStr_def)
  moreover have "courseY \<notin> snd ` set ?tr"
    unfolding sel by (simp add: courseY_def courseX_def restricted_def)
  ultimately show ?thesis using oc rc by simp
qed

section \<open>Properties of the destination paths\<close>

text \<open>
  C4 says that every segment of a resolved destination, the final filename
  included, is sanitized. \<^verbatim>\<open>downloadFiles\<close> sanitizes the segments of the folder
  path only: line 145 resolves \<^verbatim>\<open>file.filename\<close> as the remote record gives it
  (\<^verbatim>\<open>downloadPages\<close> and \<^verbatim>\<open>downloadAnnouncements\<close> do sanitize their filenames). In the
  spec's scenario a file named \<^verbatim>\<open>my notes?.pdf\<close> keeps its space and its question
  mark, and a filename made of \<^verbatim>\<open>..\<close> segments leaves the course directory.
\<close>

theorem file_name_not_sanitized:
  "fileDestPath scenarioEnv ''/out/CourseX_42'' ''Unit 1/Readings'' ''my notes?.pdf''
     = ''/out/CourseX_42/Unit_1/Readings/my notes?.pdf''
   \<and> fileDestPath scenarioEnv ''/out/CourseX_42'' ''Unit 1/Readings'' ''../../../../etc/x''
     = ''/etc/x''"
  by code_simp









section \<open>Properties of the start of the program\<close>

text \<open>
  C7 says that an invocation with contradictory or missing options prints the
  usage and exits with a non-zero status before any network activity. With
  neither \<^verbatim>\<open>--course\<close> nor \<^verbatim>\<open>--all\<close> the program prints the message and the usage and
  requests nothing, but the status of the process is 0: \<^verbatim>\<open>commanderFail\<close> ends it
  through \<^verbatim>\<open>program.help()\<close>. The same holds with both options given and with the
  token missing.
\<close>

theorem usage_exit_status:
  "checkOptions noSelection = Some ''Must specify either --course or --all''
   \<and> main D E noSelection w
       = (0, info usage (info ''Must specify either --course or --all'' w))
   \<and> requests (snd (main D E noSelection w)) = requests w
   \<and> main D E (scenarioOptions\<lparr>opt_all := Some True\<rparr>) w
       = (0, info usage (info ''Specify either --course or --all, not both'' w))
   \<and> main D E (scenarioOptions\<lparr>opt_token := None\<rparr>) w
       = (0, info usage (info ''Must specify token'' w))"
  by (simp add: main_def checkOptions_def commanderFail_def helpExitStatus_def noSelection_def
      scenarioOptions_def truthyVal_def truthyStr_def info_def)

end
